theory Spec2Isabelle
  imports Main "HOL-Library.Sublist"
begin

section \<open>The vSphere Template post-processor\<close>

text \<open>
  A shallow embedding of \<^verbatim>\<open>post-processor/vsphere-template/post-processor.go\<close>:
  the two methods \<^verbatim>\<open>Configure\<close> and \<^verbatim>\<open>PostProcess\<close> of \<^verbatim>\<open>PostProcessor\<close>,
  with \<^verbatim>\<open>Logout\<close>. Everything the file calls in other packages (the configuration
  decoder, \<^verbatim>\<open>net/url\<close>, \<^verbatim>\<open>govmomi\<close>, the four steps, the context) is a field of
  the record \<open>world\<close>, so every theorem holds for every behaviour of these
  collaborators. Calls that act on the outside are recorded, in program order, in a list
  of events.
\<close>

subsection \<open>Values and errors\<close>

text \<open>
  A Go \<^verbatim>\<open>interface{}\<close> value, as \<^verbatim>\<open>artifact.State\<close> returns it: the nil interface, a
  string, or a value of another dynamic type. Comparing an interface value with a string
  constant (\<^verbatim>\<open>f != ""\<close>) is equality of dynamic type and value, hence equality with
  \<open>GoString\<close> of the constant.
\<close>

datatype go_value = GoNil | GoString string | GoBool bool

text \<open>
  A Go \<^verbatim>\<open>error\<close>: one made by \<^verbatim>\<open>fmt.Errorf\<close> or \<^verbatim>\<open>errors.New\<close> (its message), or a
  \<^verbatim>\<open>*packersdk.MultiError\<close> (its \<^verbatim>\<open>Errors\<close> slice).
\<close>

datatype error = Error string | MultiError "error list"

fun MultiErrorAppend :: "error list \<Rightarrow> error \<Rightarrow> error list" where
  "MultiErrorAppend errs e = errs @ [e]"

subsection \<open>Constants of the file\<close>

definition BuilderIdESX :: string where
  "BuilderIdESX = ''mitchellh.vmware-esx''"

definition ArtifactConfFormat :: string where
  "ArtifactConfFormat = ''artifact.conf.format''"

definition ArtifactConfKeepRegistered :: string where
  "ArtifactConfKeepRegistered = ''artifact.conf.keep_registered''"

definition ArtifactConfSkipExport :: string where
  "ArtifactConfSkipExport = ''artifact.conf.skip_export''"

text \<open>\<^verbatim>\<open>time.Second\<close>, a \<^verbatim>\<open>time.Duration\<close> in nanoseconds.\<close>

definition Second :: int where
  "Second = 1000000000"

subsection \<open>Data\<close>

datatype Trilean = TriUnset | TriTrue | TriFalse

text \<open>\<^verbatim>\<open>common.PackerConfig\<close> and \<^verbatim>\<open>interpolate.Context\<close> are opaque here.\<close>

datatype PackerConfig = PackerConfig nat

datatype interpolate_Context = interpolate_Context nat

record Config =
  PackerConfig_of :: PackerConfig
  Host :: string
  Insecure :: bool
  Username :: string
  Password :: string
  Datacenter :: string
  Folder :: string
  SnapshotEnable :: bool
  SnapshotName :: string
  SnapshotDescription :: string
  ReregisterVM :: Trilean
  ctx :: interpolate_Context

text \<open>\<^verbatim>\<open>url.URL\<close> with the fields the file touches, and \<^verbatim>\<open>url.Userinfo\<close>.\<close>

datatype Userinfo = UserPassword string string

record URL =
  Scheme :: string
  User :: "Userinfo option"
  URL_Host :: string
  Path :: string

record PostProcessor =
  config :: Config
  url :: "URL option"

text \<open>
  \<^verbatim>\<open>packersdk.Artifact\<close>, an interface: the methods the file calls are
  \<^verbatim>\<open>BuilderId()\<close> and \<^verbatim>\<open>State(name)\<close>.
\<close>

record Artifact =
  BuilderId :: string
  State :: "string \<Rightarrow> go_value"

datatype Client = Client nat

text \<open>
  The steps, by their constructors: the two struct literals carry the field they are
  given, the two \<^verbatim>\<open>NewStep...\<close> calls carry their arguments.
\<close>

datatype Step =
    stepChooseDatacenter string
  | stepCreateFolder string
  | NewStepCreateSnapshot Artifact PostProcessor
  | NewStepMarkAsTemplate Artifact PostProcessor

datatype StepAction = ActionContinue | ActionHalt

text \<open>
  \<^verbatim>\<open>multistep.BasicStateBag\<close>: a map from string keys to \<^verbatim>\<open>interface{}\<close> values; the
  values this stage stores are the UI, the client, errors, flags and references.
\<close>

datatype bag_value =
    VUi
  | VClient Client
  | VError error
  | VBool bool
  | VString string

type_synonym StateBag = "string \<rightharpoonup> bag_value"

text \<open>The outside calls, in the order the program makes them.\<close>

datatype event =
    ui_Message string
  | time_Sleep int
  | NewClient "URL option" bool
  | StepRun Step
  | StepCleanup Step
  | ClientLogout Client

text \<open>
  What the caller of \<^verbatim>\<open>PostProcess\<close> gets: the four returned values, or the panic of the
  type assertion \<^verbatim>\<open>rawErr.(error)\<close>.
\<close>

datatype ret =
    Returned "Artifact option" bool bool "error option"
  | Panicked

subsection \<open>The collaborators\<close>

text \<open>
  \<^item> \<open>vspherepost_BuilderId\<close>, \<open>vsphere_BuilderId\<close>: the constants \<^verbatim>\<open>BuilderId\<close> of the
    packages \<^verbatim>\<open>post-processor/vsphere\<close> and \<^verbatim>\<open>builder/vsphere/common\<close>;
  \<^item> \<open>config_Decode\<close>: \<^verbatim>\<open>config.Decode\<close> on \<^verbatim>\<open>p.config\<close> and the raw values: its error and
    the configuration it leaves;
  \<^item> \<open>url_Parse\<close>: \<^verbatim>\<open>url.Parse\<close>, the message of its error or the URL;
  \<^item> \<open>vc_order\<close>: the order in which \<^verbatim>\<open>range\<close> visits the keys of the map \<^verbatim>\<open>vc\<close>
    (Go leaves it unspecified);
  \<^item> \<open>govmomi_NewClient\<close>: the message of the connection error, or the client;
  \<^item> \<open>client_Logout\<close>: the error \<^verbatim>\<open>c.Logout\<close> returns;
  \<^item> \<open>step_Run\<close>, \<open>step_Cleanup\<close>: the methods of the steps, on the state bag;
  \<^item> \<open>ctx_Err\<close>: whether the context is done when the runner looks at it before the
    step of the given index.
\<close>

record 'r world =
  vspherepost_BuilderId :: string
  vsphere_BuilderId :: string
  config_Decode :: "Config \<Rightarrow> 'r \<Rightarrow> error option \<times> Config"
  url_Parse :: "string \<Rightarrow> string + URL"
  vc_order :: "string list"
  govmomi_NewClient :: "URL option \<Rightarrow> bool \<Rightarrow> string + Client"
  client_Logout :: "Client \<Rightarrow> error option"
  step_Run :: "Step \<Rightarrow> StateBag \<Rightarrow> StepAction \<times> StateBag"
  step_Cleanup :: "Step \<Rightarrow> StateBag \<Rightarrow> StateBag"
  ctx_Err :: "nat \<Rightarrow> bool"

subsection \<open>Configure\<close>

text \<open>The map \<^verbatim>\<open>vc\<close>: each key with the string its pointer points to.\<close>

definition vc :: "Config \<Rightarrow> (string \<rightharpoonup> string)" where
  "vc c = map_of [(''host'', Host c), (''username'', Username c), (''password'', Password c)]"

text \<open>The loop \<^verbatim>\<open>for key, ptr := range vc\<close>, over the keys in the order visited.\<close>

fun range_vc :: "(string \<rightharpoonup> string) \<Rightarrow> string list \<Rightarrow> error list \<Rightarrow> error list" where
  "range_vc m [] errs = errs"
| "range_vc m (key # keys) errs =
     (case m key of
        None \<Rightarrow> range_vc m keys errs
      | Some v \<Rightarrow>
          (if v = ''''
           then range_vc m keys (MultiErrorAppend errs (Error (key @ '' must be set'')))
           else range_vc m keys errs))"

text \<open>
  \<^verbatim>\<open>Configure\<close> returns its error and the post-processor as it leaves it. It makes no
  call that opens a connection, so it has no events.
\<close>

definition Configure :: "'r world \<Rightarrow> PostProcessor \<Rightarrow> 'r \<Rightarrow> error option \<times> PostProcessor" where
  "Configure w p raws =
     (case config_Decode w (config p) raws of
        (Some err, c) \<Rightarrow> (Some err, p\<lparr>config := c\<rparr>)
      | (None, c) \<Rightarrow>
          (let p1 = p\<lparr>config := c\<rparr>;
               errs = range_vc (vc c) (vc_order w) []
           in case url_Parse w (''https://'' @ Host c @ ''/sdk'') of
                Inl err \<Rightarrow>
                  (Some (MultiError (MultiErrorAppend errs
                     (Error (''Error invalid vSphere sdk endpoint: '' @ err)))), p1)
              | Inr sdk \<Rightarrow>
                  (let p2 = p1\<lparr>url := Some (sdk\<lparr>User := Some (UserPassword (Username c) (Password c))\<rparr>)\<rparr>
                   in if length errs > 0 then (Some (MultiError errs), p2) else (None, p2))))"

subsection \<open>The step runner\<close>

text \<open>
  Modelled from the spec: the runner of the plugin SDK
  (\<^verbatim>\<open>commonsteps.NewRunnerWithPauseFn\<close> and its \<^verbatim>\<open>Run\<close>), which is not part of this
  file. It runs the steps in the order of the list; before each step it looks at the
  cancellation signal and, when it is set, marks the bag cancelled and stops; when a
  step answers \<^verbatim>\<open>Halt\<close> it marks the bag halted and stops; then the cleanup hooks of the
  steps that ran are called, last first. The pause predicate is left out.
\<close>

definition StateCancelled :: string where
  "StateCancelled = ''cancelled''"

definition StateHalted :: string where
  "StateHalted = ''halted''"

fun run_loop :: "'r world \<Rightarrow> Step list \<Rightarrow> nat \<Rightarrow> StateBag \<Rightarrow> StateBag \<times> Step list" where
  "run_loop w [] i bag = (bag, [])"
| "run_loop w (s # ss) i bag =
     (if ctx_Err w i then (bag(StateCancelled \<mapsto> VBool True), [])
      else (case step_Run w s bag of
              (ActionHalt, bag1) \<Rightarrow> (bag1(StateHalted \<mapsto> VBool True), [s])
            | (ActionContinue, bag1) \<Rightarrow>
                (case run_loop w ss (Suc i) bag1 of (bag2, executed) \<Rightarrow> (bag2, s # executed))))"

fun run_cleanup :: "'r world \<Rightarrow> Step list \<Rightarrow> StateBag \<Rightarrow> StateBag" where
  "run_cleanup w [] bag = bag"
| "run_cleanup w (s # ss) bag = run_cleanup w ss (step_Cleanup w s bag)"

definition runner_Run :: "'r world \<Rightarrow> Step list \<Rightarrow> StateBag \<Rightarrow> StateBag \<times> event list" where
  "runner_Run w steps bag =
     (case run_loop w steps 0 bag of
        (bag1, executed) \<Rightarrow>
          (run_cleanup w (rev executed) bag1, map StepRun executed @ map StepCleanup (rev executed)))"

subsection \<open>PostProcess\<close>

definition builtins :: "'r world \<Rightarrow> (string \<rightharpoonup> string)" where
  "builtins w = map_of
     [(vspherepost_BuilderId w, ''vmware''),
      (BuilderIdESX, ''vmware''),
      (vsphere_BuilderId w, ''vsphere''),
      (''packer.post-processor.artifice'', ''artifice'')]"

definition UnsupportedArtifact :: "string \<Rightarrow> error" where
  "UnsupportedArtifact bid = Error
     (''The Packer vSphere Template post-processor '' @
      ''can only take an artifact from the VMware-iso builder, built on '' @
      ''ESXi (i.e. remote) or an artifact from the vSphere post-processor. '' @
      ''Artifact type '' @ bid @ '' does not fit this requirement'')"

definition ConflictingExportConfig :: error where
  "ConflictingExportConfig = Error
     ''To use this post-processor with exporting behavior you need set keep_registered as true''"

definition ConnectionError :: "string \<Rightarrow> error" where
  "ConnectionError err = Error (''Error connecting to vSphere: '' @ err)"

text \<open>\<^verbatim>\<open>Logout\<close>: the call is made and the error it returns is dropped (\<^verbatim>\<open>_ =\<close>).\<close>

definition Logout :: "'r world \<Rightarrow> Client \<Rightarrow> event list" where
  "Logout w c = (case client_Logout w c of _ \<Rightarrow> [ClientLogout c])"

text \<open>The slice \<^verbatim>\<open>steps\<close> of \<^verbatim>\<open>PostProcess\<close>.\<close>

definition steps :: "PostProcessor \<Rightarrow> Artifact \<Rightarrow> Step list" where
  "steps p artifact =
     [stepChooseDatacenter (Datacenter (config p)),
      stepCreateFolder (Folder (config p)),
      NewStepCreateSnapshot artifact p,
      NewStepMarkAsTemplate artifact p]"

text \<open>The state bag as \<^verbatim>\<open>PostProcess\<close> seeds it.\<close>

definition seed_state :: "Client \<Rightarrow> StateBag" where
  "seed_state c = (Map.empty(''ui'' \<mapsto> VUi))(''client'' \<mapsto> VClient c)"

text \<open>
  The part of \<^verbatim>\<open>PostProcess\<close> after \<^verbatim>\<open>defer p.Logout(c)\<close>: the bag the runner leaves
  decides the result; the deferred \<^verbatim>\<open>Logout\<close> runs last, also when the type assertion
  panics.
\<close>

definition run_steps :: "'r world \<Rightarrow> PostProcessor \<Rightarrow> Artifact \<Rightarrow> Client \<Rightarrow> StateBag \<times> event list" where
  "run_steps w p artifact c = runner_Run w (steps p artifact) (seed_state c)"

definition PostProcess :: "'r world \<Rightarrow> PostProcessor \<Rightarrow> Artifact \<Rightarrow> ret \<times> event list" where
  "PostProcess w p artifact =
     (if builtins w (BuilderId artifact) = None
      then (Returned None False False (Some (UnsupportedArtifact (BuilderId artifact))), [])
      else
        (let f = State artifact ArtifactConfFormat;
             k = State artifact ArtifactConfKeepRegistered;
             s = State artifact ArtifactConfSkipExport
         in if f \<noteq> GoString '''' \<and> k \<noteq> GoString ''true'' \<and> s = GoString ''false''
            then (Returned None False False (Some ConflictingExportConfig), [])
            else
              (let pre = [ui_Message ''Waiting 10s for VMware vSphere to start'',
                          time_Sleep (10 * Second),
                          NewClient (url p) (Insecure (config p))]
               in case govmomi_NewClient w (url p) (Insecure (config p)) of
                    Inl err \<Rightarrow> (Returned None False False (Some (ConnectionError err)), pre)
                  | Inr c \<Rightarrow>
                      (case run_steps w p artifact c of
                         (state, evs) \<Rightarrow>
                           ((case state ''error'' of
                               Some (VError rawErr) \<Rightarrow> Returned None False False (Some rawErr)
                             | Some _ \<Rightarrow> Panicked
                             | None \<Rightarrow> Returned (Some artifact) True True None),
                            pre @ evs @ Logout w c)))))"

subsection \<open>Vocabulary of the statements\<close>

definition export_conflict :: "Artifact \<Rightarrow> bool" where
  "export_conflict artifact =
     (State artifact ArtifactConfFormat \<noteq> GoString '''' \<and>
      State artifact ArtifactConfKeepRegistered \<noteq> GoString ''true'' \<and>
      State artifact ArtifactConfSkipExport = GoString ''false'')"

definition allow_listed :: "'r world \<Rightarrow> Artifact \<Rightarrow> bool" where
  "allow_listed w artifact = (builtins w (BuilderId artifact) \<noteq> None)"

definition validated :: "'r world \<Rightarrow> Artifact \<Rightarrow> bool" where
  "validated w artifact = (allow_listed w artifact \<and> \<not> export_conflict artifact)"

definition settle :: "PostProcessor \<Rightarrow> event list" where
  "settle p =
     [ui_Message ''Waiting 10s for VMware vSphere to start'',
      time_Sleep (10 * Second),
      NewClient (url p) (Insecure (config p))]"

fun is_Logout :: "event \<Rightarrow> bool" where
  "is_Logout (ClientLogout c) = True"
| "is_Logout _ = False"

fun is_Sleep :: "event \<Rightarrow> bool" where
  "is_Sleep (time_Sleep d) = True"
| "is_Sleep _ = False"

fun is_NewClient :: "event \<Rightarrow> bool" where
  "is_NewClient (NewClient u i) = True"
| "is_NewClient _ = False"

fun steps_run :: "event list \<Rightarrow> Step list" where
  "steps_run [] = []"
| "steps_run (StepRun s # evs) = s # steps_run evs"
| "steps_run (_ # evs) = steps_run evs"

fun nonempty_string :: "go_value \<Rightarrow> bool" where
  "nonempty_string (GoString s) = (s \<noteq> [])"
| "nonempty_string _ = False"

definition error_slot_ok :: "StateBag \<Rightarrow> bool" where
  "error_slot_ok state =
     (case state ''error'' of Some (VError e) \<Rightarrow> True | Some _ \<Rightarrow> False | None \<Rightarrow> True)"

definition decide :: "Artifact \<Rightarrow> StateBag \<Rightarrow> ret" where
  "decide artifact state =
     (case state ''error'' of
        Some (VError rawErr) \<Rightarrow> Returned None False False (Some rawErr)
      | Some _ \<Rightarrow> Panicked
      | None \<Rightarrow> Returned (Some artifact) True True None)"

subsection \<open>Fixtures\<close>

definition parse_sdk :: "string \<Rightarrow> string + URL" where
  "parse_sdk s = Inr \<lparr>Scheme = ''https'', User = None,
     URL_Host = take (length s - 12) (drop 8 s), Path = ''/sdk''\<rparr>"

definition decode_keep :: "Config \<Rightarrow> unit \<Rightarrow> error option \<times> Config" where
  "decode_keep c raws = (None, c)"

definition connect_ok :: "URL option \<Rightarrow> bool \<Rightarrow> string + Client" where
  "connect_ok u i = Inr (Client 1)"

definition connect_refused :: "URL option \<Rightarrow> bool \<Rightarrow> string + Client" where
  "connect_refused u i = Inl ''connection refused''"

definition logout_ok :: "Client \<Rightarrow> error option" where
  "logout_ok c = None"

definition logout_fails :: "Client \<Rightarrow> error option" where
  "logout_fails c = Some (Error ''session is not authenticated'')"

definition run_continue :: "Step \<Rightarrow> StateBag \<Rightarrow> StepAction \<times> StateBag" where
  "run_continue s bag = (ActionContinue, bag)"

definition run_folder_fails :: "Step \<Rightarrow> StateBag \<Rightarrow> StepAction \<times> StateBag" where
  "run_folder_fails s bag =
     (case s of
        stepCreateFolder f \<Rightarrow> (ActionHalt, bag(''error'' \<mapsto> VError (Error ''cannot create folder'')))
      | _ \<Rightarrow> (ActionContinue, bag))"

definition cleanup_none :: "Step \<Rightarrow> StateBag \<Rightarrow> StateBag" where
  "cleanup_none s bag = bag"

definition never_cancelled :: "nat \<Rightarrow> bool" where
  "never_cancelled i = False"

definition cancelled_from_2 :: "nat \<Rightarrow> bool" where
  "cancelled_from_2 i = (2 \<le> i)"

definition w_ok :: "unit world" where
  "w_ok = \<lparr>vspherepost_BuilderId = ''packer.post-processor.vsphere'',
            vsphere_BuilderId = ''jetbrains.vsphere'',
            config_Decode = decode_keep,
            url_Parse = parse_sdk,
            vc_order = [''password'', ''host'', ''username''],
            govmomi_NewClient = connect_ok,
            client_Logout = logout_ok,
            step_Run = run_continue,
            step_Cleanup = cleanup_none,
            ctx_Err = never_cancelled\<rparr>"

definition w_logout_fails :: "unit world" where
  "w_logout_fails = w_ok\<lparr>client_Logout := logout_fails\<rparr>"

definition w_folder_fails :: "unit world" where
  "w_folder_fails = w_ok\<lparr>step_Run := run_folder_fails\<rparr>"

definition w_refused :: "unit world" where
  "w_refused = w_ok\<lparr>govmomi_NewClient := connect_refused\<rparr>"

definition w_cancelled :: "unit world" where
  "w_cancelled = w_ok\<lparr>ctx_Err := cancelled_from_2\<rparr>"

definition c_full :: Config where
  "c_full = \<lparr>PackerConfig_of = PackerConfig 0, Host = ''vcenter.example.com'', Insecure = True,
     Username = ''root'', Password = ''secret'', Datacenter = ''dc1'', Folder = ''templates'',
     SnapshotEnable = False, SnapshotName = '''', SnapshotDescription = '''',
     ReregisterVM = TriUnset, ctx = interpolate_Context 0\<rparr>"

definition c_empty :: Config where
  "c_empty = c_full\<lparr>Host := '''', Username := '''', Password := ''''\<rparr>"

definition c_no_user :: Config where
  "c_no_user = c_full\<lparr>Username := ''''\<rparr>"

definition p_full :: PostProcessor where
  "p_full = \<lparr>config = c_full, url = None\<rparr>"

definition p_empty :: PostProcessor where
  "p_empty = \<lparr>config = c_empty, url = None\<rparr>"

definition p_no_user :: PostProcessor where
  "p_no_user = \<lparr>config = c_no_user, url = None\<rparr>"

definition no_state :: "string \<Rightarrow> go_value" where
  "no_state name = GoNil"

definition state_skip_only :: "string \<Rightarrow> go_value" where
  "state_skip_only name = (if name = ArtifactConfSkipExport then GoString ''false'' else GoNil)"

definition state_export :: "string \<Rightarrow> go_value" where
  "state_export name =
     (if name = ArtifactConfFormat then GoString ''ovf''
      else if name = ArtifactConfKeepRegistered then GoString ''false''
      else if name = ArtifactConfSkipExport then GoString ''false''
      else GoNil)"

definition state_skip_empty :: "string \<Rightarrow> go_value" where
  "state_skip_empty name =
     (if name = ArtifactConfFormat then GoString ''ovf''
      else if name = ArtifactConfKeepRegistered then GoString ''false''
      else if name = ArtifactConfSkipExport then GoString ''''
      else GoNil)"

definition a_esx :: Artifact where
  "a_esx = \<lparr>BuilderId = ''mitchellh.vmware-esx'', State = no_state\<rparr>"

definition a_skip_only :: Artifact where
  "a_skip_only = \<lparr>BuilderId = ''mitchellh.vmware-esx'', State = state_skip_only\<rparr>"

definition a_export :: Artifact where
  "a_export = \<lparr>BuilderId = ''mitchellh.vmware-esx'', State = state_export\<rparr>"

definition a_skip_empty :: Artifact where
  "a_skip_empty = \<lparr>BuilderId = ''mitchellh.vmware-esx'', State = state_skip_empty\<rparr>"

definition state_no_skip :: "string \<Rightarrow> go_value" where
  "state_no_skip name =
     (if name = ArtifactConfFormat then GoString ''ovf''
      else if name = ArtifactConfKeepRegistered then GoString ''false''
      else GoNil)"

definition a_no_skip :: Artifact where
  "a_no_skip = \<lparr>BuilderId = ''mitchellh.vmware-esx'', State = state_no_skip\<rparr>"

definition a_docker :: Artifact where
  "a_docker = \<lparr>BuilderId = ''packer.docker'', State = no_state\<rparr>"

section \<open>Properties\<close>

lemmas fixture_defs =
  w_ok_def w_logout_fails_def w_folder_fails_def w_refused_def w_cancelled_def
  parse_sdk_def decode_keep_def connect_ok_def connect_refused_def logout_ok_def logout_fails_def
  run_continue_def run_folder_fails_def cleanup_none_def never_cancelled_def cancelled_from_2_def
  c_full_def c_empty_def c_no_user_def p_full_def p_empty_def p_no_user_def
  no_state_def state_skip_only_def state_export_def state_skip_empty_def state_no_skip_def
  a_esx_def a_skip_only_def a_export_def a_skip_empty_def a_no_skip_def a_docker_def

lemmas model_defs =
  PostProcess_def builtins_def BuilderIdESX_def ArtifactConfFormat_def
  ArtifactConfKeepRegistered_def ArtifactConfSkipExport_def Second_def
  UnsupportedArtifact_def ConflictingExportConfig_def ConnectionError_def Logout_def
  steps_def seed_state_def run_steps_def runner_Run_def StateCancelled_def StateHalted_def
  export_conflict_def allow_listed_def validated_def settle_def

subsection \<open>Helpers\<close>

lemma run_loop_prefix: "prefix (snd (run_loop w ss i bag)) ss"
proof (induction ss arbitrary: i bag)
  case Nil
  show ?case by simp
next
  case (Cons s ss)
  show ?case
  proof (cases "ctx_Err w i")
    case True
    then show ?thesis by simp
  next
    case False
    obtain act b1 where r: "step_Run w s bag = (act, b1)"
      by (cases "step_Run w s bag")
    show ?thesis
    proof (cases act)
      case ActionHalt
      then show ?thesis using False r by simp
    next
      case ActionContinue
      obtain b2 ex where l: "run_loop w ss (Suc i) b1 = (b2, ex)"
        by (cases "run_loop w ss (Suc i) b1")
      have "prefix ex ss" using Cons.IH [of "Suc i" b1] l by simp
      then show ?thesis using False r ActionContinue l by simp
    qed
  qed
qed

lemma run_loop_all:
  "(\<And>s b. fst (step_Run w s b) = ActionContinue) \<Longrightarrow> (\<And>j. j < length ss \<Longrightarrow> \<not> ctx_Err w (i + j))
   \<Longrightarrow> snd (run_loop w ss i bag) = ss"
proof (induction ss arbitrary: i bag)
  case Nil
  show ?case by simp
next
  case (Cons s ss)
  have here: "\<not> ctx_Err w i" using Cons.prems(2) [of 0] by simp
  have later: "\<And>j. j < length ss \<Longrightarrow> \<not> ctx_Err w (Suc i + j)"
    using Cons.prems(2) [of "Suc j" for j] by simp
  obtain b1 where r: "step_Run w s bag = (ActionContinue, b1)"
    using Cons.prems(1) [of s bag] by (cases "step_Run w s bag") auto
  have "snd (run_loop w ss (Suc i) b1) = ss"
    using Cons.IH [OF Cons.prems(1) later] by simp
  then show ?case using here r by (auto split: prod.splits)
qed

lemma steps_run_cleanups: "steps_run (map StepCleanup ys) = []"
  by (induction ys) auto

lemma steps_run_runner: "steps_run (map StepRun xs @ map StepCleanup ys) = xs"
  by (induction xs) (auto simp: steps_run_cleanups)

lemma PostProcess_unsupported:
  "builtins w (BuilderId a) = None \<Longrightarrow>
   PostProcess w p a = (Returned None False False (Some (UnsupportedArtifact (BuilderId a))), [])"
  by (simp add: PostProcess_def)

lemma PostProcess_conflict:
  "allow_listed w a \<Longrightarrow> export_conflict a \<Longrightarrow>
   PostProcess w p a = (Returned None False False (Some ConflictingExportConfig), [])"
  by (auto simp add: PostProcess_def allow_listed_def export_conflict_def)

lemma PostProcess_no_connection:
  "validated w a \<Longrightarrow> govmomi_NewClient w (url p) (Insecure (config p)) = Inl m \<Longrightarrow>
   PostProcess w p a = (Returned None False False (Some (ConnectionError m)), settle p)"
  by (auto simp add: PostProcess_def validated_def allow_listed_def export_conflict_def settle_def Let_def)

lemma PostProcess_connected:
  "validated w a \<Longrightarrow> govmomi_NewClient w (url p) (Insecure (config p)) = Inr c \<Longrightarrow>
   PostProcess w p a =
     (decide a (fst (run_steps w p a c)), settle p @ snd (run_steps w p a c) @ [ClientLogout c])"
  by (auto simp add: PostProcess_def validated_def allow_listed_def export_conflict_def settle_def
      Let_def decide_def Logout_def split: prod.splits)

lemma ex_ok:
  "PostProcess w_ok p_full a_esx =
     (Returned (Some a_esx) True True None,
      [ui_Message ''Waiting 10s for VMware vSphere to start'', time_Sleep 10000000000,
       NewClient None True,
       StepRun (stepChooseDatacenter ''dc1''), StepRun (stepCreateFolder ''templates''),
       StepRun (NewStepCreateSnapshot a_esx p_full), StepRun (NewStepMarkAsTemplate a_esx p_full),
       StepCleanup (NewStepMarkAsTemplate a_esx p_full), StepCleanup (NewStepCreateSnapshot a_esx p_full),
       StepCleanup (stepCreateFolder ''templates''), StepCleanup (stepChooseDatacenter ''dc1''),
       ClientLogout (Client 1)])"
  by (simp add: model_defs fixture_defs)

lemma ex_folder:
  "PostProcess w_folder_fails p_full a_esx =
     (Returned None False False (Some (Error ''cannot create folder'')),
      [ui_Message ''Waiting 10s for VMware vSphere to start'', time_Sleep 10000000000,
       NewClient None True,
       StepRun (stepChooseDatacenter ''dc1''), StepRun (stepCreateFolder ''templates''),
       StepCleanup (stepCreateFolder ''templates''), StepCleanup (stepChooseDatacenter ''dc1''),
       ClientLogout (Client 1)])"
  by (simp add: model_defs fixture_defs)

lemma ex_cancel:
  "PostProcess w_cancelled p_full a_esx =
     (Returned (Some a_esx) True True None,
      [ui_Message ''Waiting 10s for VMware vSphere to start'', time_Sleep 10000000000,
       NewClient None True,
       StepRun (stepChooseDatacenter ''dc1''), StepRun (stepCreateFolder ''templates''),
       StepCleanup (stepCreateFolder ''templates''), StepCleanup (stepChooseDatacenter ''dc1''),
       ClientLogout (Client 1)])"
  by (simp add: model_defs fixture_defs)

lemma ex_refused:
  "PostProcess w_refused p_full a_esx =
     (Returned None False False (Some (Error ''Error connecting to vSphere: connection refused'')),
      [ui_Message ''Waiting 10s for VMware vSphere to start'', time_Sleep 10000000000,
       NewClient None True])"
  by (simp add: model_defs fixture_defs)

lemma runner_events:
  "snd (runner_Run w ss bag) =
     map StepRun (snd (run_loop w ss 0 bag)) @ map StepCleanup (rev (snd (run_loop w ss 0 bag)))"
  by (simp add: runner_Run_def split: prod.splits)

lemma no_Logout_runner: "filter is_Logout (snd (run_steps w p a c)) = []"
  by (auto simp add: run_steps_def runner_events filter_empty_conv)

lemma no_Sleep_runner: "filter is_Sleep (snd (run_steps w p a c)) = []"
  by (auto simp add: run_steps_def runner_events filter_empty_conv)

lemma no_NewClient_runner: "filter is_NewClient (snd (run_steps w p a c)) = []"
  by (auto simp add: run_steps_def runner_events filter_empty_conv)

lemma steps_run_run_steps:
  "steps_run (snd (run_steps w p a c)) = snd (run_loop w (steps p a) 0 (seed_state c))"
  by (simp add: run_steps_def runner_events steps_run_runner)

lemma not_validated:
  "\<not> validated w a \<Longrightarrow>
   PostProcess w p a = (Returned None False False (Some (UnsupportedArtifact (BuilderId a))), []) \<or>
   PostProcess w p a = (Returned None False False (Some ConflictingExportConfig), [])"
  using PostProcess_unsupported [of w a p] PostProcess_conflict [of w a p]
  by (auto simp: validated_def allow_listed_def)

lemma range_vc_keeps: "e \<in> set errs \<Longrightarrow> e \<in> set (range_vc m keys errs)"
  by (induction keys arbitrary: errs) (auto split: option.splits)

lemma range_vc_reports:
  "key \<in> set keys \<Longrightarrow> m key = Some [] \<Longrightarrow>
   Error (key @ '' must be set'') \<in> set (range_vc m keys errs)"
proof (induction keys arbitrary: errs)
  case Nil
  then show ?case by simp
next
  case (Cons k keys)
  show ?case
  proof (cases "k = key")
    case True
    have "Error (key @ '' must be set'') \<in> set (errs @ [Error (key @ '' must be set'')])" by simp
    then have "Error (key @ '' must be set'') \<in>
        set (range_vc m keys (errs @ [Error (key @ '' must be set'')]))"
      by (rule range_vc_keeps)
    then show ?thesis using True Cons.prems(2) by simp
  next
    case False
    then have "key \<in> set keys" using Cons.prems(1) by simp
    then show ?thesis using Cons.IH Cons.prems(2) by (simp split: option.splits)
  qed
qed

lemma Configure_reports_missing:
  assumes dec: "config_Decode w (config p) raws = (None, c)"
    and order: "set (vc_order w) = {''host'', ''username'', ''password''}"
    and missing: "Host c = '''' \<or> Username c = '''' \<or> Password c = ''''"
  shows "\<exists>errs. fst (Configure w p raws) = Some (MultiError errs) \<and>
           (Host c = '''' \<longrightarrow> Error ''host must be set'' \<in> set errs) \<and>
           (Username c = '''' \<longrightarrow> Error ''username must be set'' \<in> set errs) \<and>
           (Password c = '''' \<longrightarrow> Error ''password must be set'' \<in> set errs)"
proof -
  let ?errs = "range_vc (vc c) (vc_order w) []"
  have h: "Host c = '''' \<Longrightarrow> Error ''host must be set'' \<in> set ?errs"
    using range_vc_reports [of "''host''" "vc_order w" "vc c" "[]"] order by (simp add: vc_def)
  have u: "Username c = '''' \<Longrightarrow> Error ''username must be set'' \<in> set ?errs"
    using range_vc_reports [of "''username''" "vc_order w" "vc c" "[]"] order by (simp add: vc_def)
  have pw: "Password c = '''' \<Longrightarrow> Error ''password must be set'' \<in> set ?errs"
    using range_vc_reports [of "''password''" "vc_order w" "vc c" "[]"] order by (simp add: vc_def)
  have ne: "?errs \<noteq> []" using h u pw missing by auto
  show ?thesis
  proof (cases "url_Parse w (''https://'' @ Host c @ ''/sdk'')")
    case (Inl err)
    then have "fst (Configure w p raws) =
        Some (MultiError (?errs @ [Error (''Error invalid vSphere sdk endpoint: '' @ err)]))"
      using dec by (simp add: Configure_def)
    then show ?thesis using h u pw by auto
  next
    case (Inr sdk)
    then have "fst (Configure w p raws) = Some (MultiError ?errs)"
      using dec ne by (simp add: Configure_def Let_def)
    then show ?thesis using h u pw by auto
  qed
qed

lemma run_loop_Logout: "run_loop (w\<lparr>client_Logout := l\<rparr>) ss i bag = run_loop w ss i bag"
  by (induction ss arbitrary: i bag) (simp_all split: prod.splits StepAction.splits)

lemma run_cleanup_Logout: "run_cleanup (w\<lparr>client_Logout := l\<rparr>) ss bag = run_cleanup w ss bag"
  by (induction ss arbitrary: bag) simp_all

lemma builtins_Logout: "builtins (w\<lparr>client_Logout := l\<rparr>) = builtins w"
  by (simp add: builtins_def)

lemma run_steps_Logout: "run_steps (w\<lparr>client_Logout := l\<rparr>) p a c = run_steps w p a c"
  by (simp add: run_steps_def runner_Run_def run_loop_Logout run_cleanup_Logout)

lemma Logout_Logout: "Logout (w\<lparr>client_Logout := l\<rparr>) c = Logout w c"
  by (simp add: Logout_def)

lemma NewClient_Logout: "govmomi_NewClient (w\<lparr>client_Logout := l\<rparr>) = govmomi_NewClient w"
  by simp

subsection \<open>The claims\<close>

text \<open>
  Claim C1. \<^verbatim>\<open>PostProcess\<close> has exactly two outcomes at the caller's interface. When the
  artifact passes both checks, the connection opens and the runner leaves no value under
  the key \<^verbatim>\<open>"error"\<close>, it returns the artifact it was given, both booleans true and no
  error. Otherwise it returns no artifact, both booleans false and one error: the
  unsupported-artifact error, the export-conflict error, the connection error, or the
  error the steps left in the state bag. No other combination is returned.

  The hypothesis is that what the steps store under \<^verbatim>\<open>"error"\<close> is an \<^verbatim>\<open>error\<close> value, as the
  type assertion \<^verbatim>\<open>rawErr.(error)\<close> expects. A run that the runner stops without an error
  in the bag (a cancelled context, a step that halts and stores nothing) falls under the
  first outcome.
\<close>

theorem C1_two_outcomes:
  assumes slot: "\<And>c. govmomi_NewClient w (url p) (Insecure (config p)) = Inr c
                   \<Longrightarrow> error_slot_ok (fst (run_steps w p a c))"
  shows "(fst (PostProcess w p a) = Returned (Some a) True True None \<and> validated w a \<and>
            (\<exists>c. govmomi_NewClient w (url p) (Insecure (config p)) = Inr c \<and>
                 fst (run_steps w p a c) ''error'' = None))
       \<or> (\<exists>e. fst (PostProcess w p a) = Returned None False False (Some e) \<and>
            (\<not> allow_listed w a \<and> e = UnsupportedArtifact (BuilderId a)
             \<or> allow_listed w a \<and> export_conflict a \<and> e = ConflictingExportConfig
             \<or> validated w a \<and>
                 (\<exists>m. govmomi_NewClient w (url p) (Insecure (config p)) = Inl m \<and>
                      e = ConnectionError m)
             \<or> validated w a \<and>
                 (\<exists>c. govmomi_NewClient w (url p) (Insecure (config p)) = Inr c \<and>
                      fst (run_steps w p a c) ''error'' = Some (VError e))))"
proof (cases "allow_listed w a")
  case False
  then have "PostProcess w p a =
      (Returned None False False (Some (UnsupportedArtifact (BuilderId a))), [])"
    using PostProcess_unsupported [of w a p] by (simp add: allow_listed_def)
  then show ?thesis using False by simp
next
  case True
  show ?thesis
  proof (cases "export_conflict a")
    case True
    then show ?thesis using \<open>allow_listed w a\<close> PostProcess_conflict [of w a p] by simp
  next
    case False
    then have v: "validated w a" using \<open>allow_listed w a\<close> by (simp add: validated_def)
    show ?thesis
    proof (cases "govmomi_NewClient w (url p) (Insecure (config p))")
      case (Inl m)
      then show ?thesis using v PostProcess_no_connection [of w a p m] by simp
    next
      case (Inr c)
      have pp: "fst (PostProcess w p a) = decide a (fst (run_steps w p a c))"
        using v Inr PostProcess_connected [of w a p c] by simp
      have ok: "error_slot_ok (fst (run_steps w p a c))" using slot Inr by simp
      show ?thesis
      proof (cases "fst (run_steps w p a c) ''error''")
        case None
        then show ?thesis using pp v Inr by (simp add: decide_def)
      next
        case (Some x)
        then obtain e where "x = VError e"
          using ok by (cases x) (simp_all add: error_slot_ok_def)
        then show ?thesis using pp v Inr Some by (simp add: decide_def)
      qed
    qed
  qed
qed

text \<open>
  The two outcomes on concrete runs: the folder step fails and stores its error; all four
  steps succeed.
\<close>

theorem C1_two_outcomes_witness:
  "error_slot_ok (fst (run_steps w_folder_fails p_full a_esx (Client 1))) \<and>
   fst (run_steps w_folder_fails p_full a_esx (Client 1)) ''error'' =
     Some (VError (Error ''cannot create folder'')) \<and>
   fst (PostProcess w_folder_fails p_full a_esx) =
     Returned None False False (Some (Error ''cannot create folder'')) \<and>
   error_slot_ok (fst (run_steps w_ok p_full a_esx (Client 1))) \<and>
   fst (run_steps w_ok p_full a_esx (Client 1)) ''error'' = None \<and>
   fst (PostProcess w_ok p_full a_esx) = Returned (Some a_esx) True True None"
proof -
  have h1: "\<And>c. govmomi_NewClient w_folder_fails (url p_full) (Insecure (config p_full)) = Inr c
     \<Longrightarrow> error_slot_ok (fst (run_steps w_folder_fails p_full a_esx c))"
    by (simp add: model_defs fixture_defs error_slot_ok_def)
  have h2: "\<And>c. govmomi_NewClient w_ok (url p_full) (Insecure (config p_full)) = Inr c
     \<Longrightarrow> error_slot_ok (fst (run_steps w_ok p_full a_esx c))"
    by (simp add: model_defs fixture_defs error_slot_ok_def)
  show ?thesis
    using C1_two_outcomes [of w_folder_fails p_full a_esx, OF h1]
      C1_two_outcomes [of w_ok p_full a_esx, OF h2]
    by (simp add: model_defs fixture_defs error_slot_ok_def)
qed

text \<open>
  Claim C2. For every artifact whose \<^verbatim>\<open>BuilderId\<close> is none of the four keys of
  \<^verbatim>\<open>builtins\<close>, \<^verbatim>\<open>PostProcess\<close> returns no artifact, both booleans false and the
  unsupported-artifact error, whose message contains the offending identity; its list of
  events is empty: no message, no settling delay, no call of \<^verbatim>\<open>govmomi.NewClient\<close>.
\<close>

theorem C2_unsupported_artifact:
  assumes "BuilderId a \<notin> {vspherepost_BuilderId w, BuilderIdESX, vsphere_BuilderId w,
                            ''packer.post-processor.artifice''}"
  shows "PostProcess w p a =
           (Returned None False False (Some (UnsupportedArtifact (BuilderId a))), []) \<and>
         (\<exists>pre post. UnsupportedArtifact (BuilderId a) = Error (pre @ BuilderId a @ post))"
proof -
  have "builtins w (BuilderId a) = None" using assms by (simp add: builtins_def)
  then have "PostProcess w p a =
      (Returned None False False (Some (UnsupportedArtifact (BuilderId a))), [])"
    by (rule PostProcess_unsupported)
  moreover have "\<exists>pre post. UnsupportedArtifact (BuilderId a) = Error (pre @ BuilderId a @ post)"
    unfolding UnsupportedArtifact_def by (metis append.assoc)
  ultimately show ?thesis by simp
qed

text \<open>An artifact of a Docker builder is turned away with the message naming it.\<close>

theorem C2_unsupported_artifact_witness:
  "BuilderId a_docker \<notin> {vspherepost_BuilderId w_ok, BuilderIdESX, vsphere_BuilderId w_ok,
                            ''packer.post-processor.artifice''} \<and>
   PostProcess w_ok p_full a_docker =
     (Returned None False False (Some (Error
        (''The Packer vSphere Template post-processor '' @
         ''can only take an artifact from the VMware-iso builder, built on '' @
         ''ESXi (i.e. remote) or an artifact from the vSphere post-processor. '' @
         ''Artifact type packer.docker does not fit this requirement''))), [])"
proof -
  have h: "BuilderId a_docker \<notin> {vspherepost_BuilderId w_ok, BuilderIdESX, vsphere_BuilderId w_ok,
                            ''packer.post-processor.artifice''}"
    by (simp add: fixture_defs BuilderIdESX_def)
  show ?thesis using h C2_unsupported_artifact [OF h, of p_full]
    by (simp add: UnsupportedArtifact_def a_docker_def)
qed

text \<open>
  Claim C3 says that the export check passes whenever one of its three conditions fails,
  the first being that the export format is a non-empty string. The code compares the
  \<^verbatim>\<open>interface{}\<close> value with \<^verbatim>\<open>""\<close>: an artifact that has no export format at all (the
  nil interface), no keep-registered flag and the skip-export flag \<^verbatim>\<open>"false"\<close> is
  rejected with the export-conflict error, although its format is not a non-empty
  string.
\<close>

theorem C3_counterexample:
  "allow_listed w_ok a_skip_only \<and>
   \<not> nonempty_string (State a_skip_only ArtifactConfFormat) \<and>
   PostProcess w_ok p_full a_skip_only =
     (Returned None False False (Some ConflictingExportConfig), [])"
  by (simp add: model_defs fixture_defs)

text \<open>
  Claim C3, amended. For every allow-listed artifact, \<^verbatim>\<open>PostProcess\<close> fails with the
  export-conflict error, before any event, exactly when the export-format metadata is
  anything other than the empty string (a non-empty string, but also an absent or
  non-string value), the keep-registered metadata is not the string \<^verbatim>\<open>"true"\<close> and the
  skip-export metadata is the string \<^verbatim>\<open>"false"\<close>. In particular it fails so when the format
  is a non-empty string. When one of the three conditions does not hold the check
  passes: the run goes on to the settling delay and the connection.
\<close>

theorem C3_export_conflict_gate:
  assumes "allow_listed w a"
  shows "(State a ArtifactConfFormat \<noteq> GoString '''' \<and>
          State a ArtifactConfKeepRegistered \<noteq> GoString ''true'' \<and>
          State a ArtifactConfSkipExport = GoString ''false''
            \<longrightarrow> PostProcess w p a = (Returned None False False (Some ConflictingExportConfig), []))
       \<and> (nonempty_string (State a ArtifactConfFormat) \<and>
          State a ArtifactConfKeepRegistered \<noteq> GoString ''true'' \<and>
          State a ArtifactConfSkipExport = GoString ''false''
            \<longrightarrow> PostProcess w p a = (Returned None False False (Some ConflictingExportConfig), []))
       \<and> (\<not> (State a ArtifactConfFormat \<noteq> GoString '''' \<and>
             State a ArtifactConfKeepRegistered \<noteq> GoString ''true'' \<and>
             State a ArtifactConfSkipExport = GoString ''false'')
            \<longrightarrow> prefix (settle p) (snd (PostProcess w p a)) \<and>
                PostProcess w p a \<noteq> (Returned None False False (Some ConflictingExportConfig), []))"
proof -
  have fwd: "export_conflict a \<Longrightarrow>
      PostProcess w p a = (Returned None False False (Some ConflictingExportConfig), [])"
    using assms by (rule PostProcess_conflict)
  have ne: "nonempty_string (State a ArtifactConfFormat) \<Longrightarrow> State a ArtifactConfFormat \<noteq> GoString ''''"
    by (cases "State a ArtifactConfFormat") auto
  have pass: "prefix (settle p) (snd (PostProcess w p a))" if "\<not> export_conflict a"
  proof -
    have v: "validated w a" using assms that by (simp add: validated_def)
    show ?thesis
    proof (cases "govmomi_NewClient w (url p) (Insecure (config p))")
      case (Inl m)
      then show ?thesis using v PostProcess_no_connection [of w a p m] by simp
    next
      case (Inr c)
      then show ?thesis using v PostProcess_connected [of w a p c] by simp
    qed
  qed
  have nonempty: "settle p \<noteq> []" by (simp add: settle_def)
  have differs: "PostProcess w p a \<noteq> (Returned None False False (Some ConflictingExportConfig), [])"
    if "\<not> export_conflict a"
  proof
    assume "PostProcess w p a = (Returned None False False (Some ConflictingExportConfig), [])"
    then have "snd (PostProcess w p a) = []" by simp
    then show False using pass [OF that] nonempty by simp
  qed
  show ?thesis using fwd ne pass differs unfolding export_conflict_def by blast
qed

text \<open>
  An artifact exporting as \<^verbatim>\<open>ovf\<close> without keep-registered is rejected; the same artifact
  with an empty skip-export flag passes the check.
\<close>

theorem C3_export_conflict_gate_witness:
  "allow_listed w_ok a_export \<and>
   PostProcess w_ok p_full a_export = (Returned None False False (Some ConflictingExportConfig), []) \<and>
   allow_listed w_ok a_skip_empty \<and>
   prefix (settle p_full) (snd (PostProcess w_ok p_full a_skip_empty))"
proof -
  have h1: "allow_listed w_ok a_export" by (simp add: model_defs fixture_defs)
  have h2: "allow_listed w_ok a_skip_empty" by (simp add: model_defs fixture_defs)
  have s1: "State a_export ArtifactConfFormat = GoString ''ovf''"
           "State a_export ArtifactConfKeepRegistered = GoString ''false''"
           "State a_export ArtifactConfSkipExport = GoString ''false''"
    by (simp_all add: model_defs fixture_defs)
  have s2: "State a_skip_empty ArtifactConfSkipExport = GoString ''''"
    by (simp add: model_defs fixture_defs)
  show ?thesis
    using h1 h2 C3_export_conflict_gate [OF h1, of p_full] C3_export_conflict_gate [OF h2, of p_full]
    by (simp add: s1 s2)
qed

text \<open>
  Claim C4. The events of \<^verbatim>\<open>PostProcess\<close> hold exactly one \<^verbatim>\<open>Logout\<close>, of the client that
  \<^verbatim>\<open>govmomi.NewClient\<close> returned, when the artifact passes validation and the connection
  opens, whatever the steps and the context do (success, step failure, cancellation, and
  the panic of the type assertion); it is then the last event. They hold none when the
  connection fails or when validation rejects the artifact.
\<close>

theorem C4_logout_exactly_once:
  "filter is_Logout (snd (PostProcess w p a)) =
     (if validated w a
      then (case govmomi_NewClient w (url p) (Insecure (config p)) of
              Inr c \<Rightarrow> [ClientLogout c]
            | Inl m \<Rightarrow> [])
      else [])
   \<and> (\<forall>c. validated w a \<and> govmomi_NewClient w (url p) (Insecure (config p)) = Inr c
          \<longrightarrow> last (snd (PostProcess w p a)) = ClientLogout c)"
proof (cases "validated w a")
  case False
  then show ?thesis using not_validated [of w a p] by auto
next
  case True
  show ?thesis
  proof (cases "govmomi_NewClient w (url p) (Insecure (config p))")
    case (Inl m)
    then show ?thesis using True PostProcess_no_connection [of w a p m]
      by (simp add: settle_def)
  next
    case (Inr c)
    then show ?thesis using True PostProcess_connected [of w a p c]
      by (simp add: settle_def no_Logout_runner)
  qed
qed

text \<open>
  One \<^verbatim>\<open>Logout\<close> on success, on a failing step and on cancellation; none when the
  connection is refused or the artifact is unsupported.
\<close>

theorem C4_logout_exactly_once_witness:
  "validated w_ok a_esx \<and>
   filter is_Logout (snd (PostProcess w_ok p_full a_esx)) = [ClientLogout (Client 1)] \<and>
   filter is_Logout (snd (PostProcess w_folder_fails p_full a_esx)) = [ClientLogout (Client 1)] \<and>
   filter is_Logout (snd (PostProcess w_cancelled p_full a_esx)) = [ClientLogout (Client 1)] \<and>
   last (snd (PostProcess w_folder_fails p_full a_esx)) = ClientLogout (Client 1) \<and>
   filter is_Logout (snd (PostProcess w_refused p_full a_esx)) = [] \<and>
   filter is_Logout (snd (PostProcess w_ok p_full a_docker)) = []"
proof -
  have v: "validated w_ok a_esx" "validated w_folder_fails a_esx" "validated w_cancelled a_esx"
    "validated w_refused a_esx" "\<not> validated w_ok a_docker"
    by (simp_all add: model_defs fixture_defs)
  have n: "govmomi_NewClient w_ok (url p_full) (Insecure (config p_full)) = Inr (Client 1)"
    "govmomi_NewClient w_folder_fails (url p_full) (Insecure (config p_full)) = Inr (Client 1)"
    "govmomi_NewClient w_cancelled (url p_full) (Insecure (config p_full)) = Inr (Client 1)"
    "govmomi_NewClient w_refused (url p_full) (Insecure (config p_full)) = Inl ''connection refused''"
    by (simp_all add: fixture_defs)
  show ?thesis
    using C4_logout_exactly_once [of w_ok p_full a_esx]
      C4_logout_exactly_once [of w_folder_fails p_full a_esx]
      C4_logout_exactly_once [of w_cancelled p_full a_esx]
      C4_logout_exactly_once [of w_refused p_full a_esx]
      C4_logout_exactly_once [of w_ok p_full a_docker]
    by (simp add: v n)
qed

text \<open>
  Claim C5. \<^verbatim>\<open>PostProcess\<close> builds exactly four steps, in the order ChooseDatacenter,
  CreateFolder, CreateSnapshot, MarkAsTemplate. The steps the runner runs are always an
  initial segment of this list, in this order; when the artifact passes validation, the
  connection opens, the context is not cancelled and every step continues, they are the
  whole list.
\<close>

theorem C5_step_order:
  "steps p a = [stepChooseDatacenter (Datacenter (config p)), stepCreateFolder (Folder (config p)),
                NewStepCreateSnapshot a p, NewStepMarkAsTemplate a p]
   \<and> prefix (steps_run (snd (PostProcess w p a))) (steps p a)
   \<and> (validated w a \<and> (\<exists>c. govmomi_NewClient w (url p) (Insecure (config p)) = Inr c) \<and>
       (\<forall>i<4. \<not> ctx_Err w i) \<and> (\<forall>s b. fst (step_Run w s b) = ActionContinue)
        \<longrightarrow> steps_run (snd (PostProcess w p a)) = steps p a)"
proof -
  have list: "steps p a = [stepChooseDatacenter (Datacenter (config p)),
      stepCreateFolder (Folder (config p)), NewStepCreateSnapshot a p, NewStepMarkAsTemplate a p]"
    by (simp add: steps_def)
  have settle0: "steps_run (settle p @ evs) = steps_run evs" for evs
    by (simp add: settle_def)
  have tail0: "steps_run (evs @ [ClientLogout c]) = steps_run evs" for evs c
    by (induction evs rule: steps_run.induct) simp_all
  have conn: "steps_run (snd (PostProcess w p a)) = snd (run_loop w (steps p a) 0 (seed_state c))"
    if "validated w a" "govmomi_NewClient w (url p) (Insecure (config p)) = Inr c" for c
    using that PostProcess_connected [of w a p c]
    by (simp add: settle0 tail0 steps_run_run_steps)
  have pre: "prefix (steps_run (snd (PostProcess w p a))) (steps p a)"
  proof (cases "validated w a")
    case False
    then show ?thesis using not_validated [of w a p] by auto
  next
    case True
    show ?thesis
    proof (cases "govmomi_NewClient w (url p) (Insecure (config p))")
      case (Inl m)
      then show ?thesis using True PostProcess_no_connection [of w a p m]
        by (simp add: settle_def)
    next
      case (Inr c)
      then show ?thesis using conn [OF True Inr] run_loop_prefix [of w "steps p a" 0 "seed_state c"]
        by simp
    qed
  qed
  have full: "steps_run (snd (PostProcess w p a)) = steps p a"
    if v: "validated w a" and c: "govmomi_NewClient w (url p) (Insecure (config p)) = Inr c"
      and nc: "\<forall>i<4. \<not> ctx_Err w i" and ac: "\<forall>s b. fst (step_Run w s b) = ActionContinue" for c
  proof -
    have "snd (run_loop w (steps p a) 0 (seed_state c)) = steps p a"
    proof (rule run_loop_all)
      show "fst (step_Run w s b) = ActionContinue" for s b using ac by simp
      show "\<not> ctx_Err w (0 + j)" if "j < length (steps p a)" for j
        using nc that by (simp add: steps_def)
    qed
    then show ?thesis using conn [OF v c] by simp
  qed
  show ?thesis using list pre full by blast
qed

text \<open>All four steps run in order on success; a failing folder step leaves an initial segment.\<close>

theorem C5_step_order_witness:
  "validated w_ok a_esx \<and>
   steps_run (snd (PostProcess w_ok p_full a_esx)) =
     [stepChooseDatacenter ''dc1'', stepCreateFolder ''templates'',
      NewStepCreateSnapshot a_esx p_full, NewStepMarkAsTemplate a_esx p_full] \<and>
   prefix (steps_run (snd (PostProcess w_folder_fails p_full a_esx)))
     [stepChooseDatacenter ''dc1'', stepCreateFolder ''templates'',
      NewStepCreateSnapshot a_esx p_full, NewStepMarkAsTemplate a_esx p_full]"
proof -
  have v: "validated w_ok a_esx" by (simp add: model_defs fixture_defs)
  have n: "\<exists>c. govmomi_NewClient w_ok (url p_full) (Insecure (config p_full)) = Inr c"
    by (simp add: fixture_defs)
  have nc: "\<forall>i<4. \<not> ctx_Err w_ok i" by (simp add: fixture_defs)
  have ac: "\<forall>s b. fst (step_Run w_ok s b) = ActionContinue" by (simp add: fixture_defs)
  have st: "steps p_full a_esx = [stepChooseDatacenter ''dc1'', stepCreateFolder ''templates'',
      NewStepCreateSnapshot a_esx p_full, NewStepMarkAsTemplate a_esx p_full]"
    by (simp add: steps_def p_full_def c_full_def)
  show ?thesis
    using C5_step_order [of p_full a_esx w_ok] C5_step_order [of p_full a_esx w_folder_fails]
      v n nc ac
    by (simp add: st)
qed

text \<open>
  Claim C6. For every invocation that passes validation, the events begin with the
  message, the call \<^verbatim>\<open>time.Sleep(10 * time.Second)\<close> (ten seconds, in nanoseconds) and the
  call of \<^verbatim>\<open>govmomi.NewClient\<close>, in this order, and there is no other sleep and no other
  connection after them: the delay comes before the connection and before every step. An
  invocation that validation rejects has no event at all, hence no delay.
\<close>

theorem C6_settling_delay:
  "(validated w a \<longrightarrow>
      (\<exists>rest. snd (PostProcess w p a) =
                [ui_Message ''Waiting 10s for VMware vSphere to start'',
                 time_Sleep 10000000000,
                 NewClient (url p) (Insecure (config p))] @ rest \<and>
              filter is_Sleep rest = [] \<and> filter is_NewClient rest = []))
   \<and> (\<not> validated w a \<longrightarrow> snd (PostProcess w p a) = [])"
proof (cases "validated w a")
  case False
  then show ?thesis using not_validated [of w a p] by auto
next
  case True
  have s: "settle p = [ui_Message ''Waiting 10s for VMware vSphere to start'',
      time_Sleep 10000000000, NewClient (url p) (Insecure (config p))]"
    by (simp add: settle_def Second_def)
  show ?thesis
  proof (cases "govmomi_NewClient w (url p) (Insecure (config p))")
    case (Inl m)
    then show ?thesis using True PostProcess_no_connection [of w a p m] s by simp
  next
    case (Inr c)
    have "snd (PostProcess w p a) = settle p @ (snd (run_steps w p a c) @ [ClientLogout c])"
      using True Inr PostProcess_connected [of w a p c] by simp
    moreover have "filter is_Sleep (snd (run_steps w p a c) @ [ClientLogout c]) = []"
      by (simp add: no_Sleep_runner)
    moreover have "filter is_NewClient (snd (run_steps w p a c) @ [ClientLogout c]) = []"
      by (simp add: no_NewClient_runner)
    ultimately show ?thesis using True s by auto
  qed
qed

text \<open>The delay on an accepted artifact, and its absence on a rejected one.\<close>

theorem C6_settling_delay_witness:
  "validated w_ok a_esx \<and>
   take 3 (snd (PostProcess w_ok p_full a_esx)) =
     [ui_Message ''Waiting 10s for VMware vSphere to start'', time_Sleep (10 * Second),
      NewClient None True] \<and>
   filter is_Sleep (snd (PostProcess w_ok p_full a_esx)) = [time_Sleep (10 * Second)] \<and>
   \<not> validated w_ok a_docker \<and>
   snd (PostProcess w_ok p_full a_docker) = []"
proof -
  have v: "validated w_ok a_esx" "\<not> validated w_ok a_docker"
    by (simp_all add: model_defs fixture_defs)
  have u: "url p_full = None" "Insecure (config p_full) = True"
    by (simp_all add: p_full_def c_full_def)
  show ?thesis
    using C6_settling_delay [of w_ok a_esx p_full] C6_settling_delay [of w_ok a_docker p_full] v
    by (auto simp add: u Second_def)
qed



text \<open>
  Claim C8 says that a failure of \<^verbatim>\<open>Logout\<close> is recorded. \<^verbatim>\<open>Logout\<close> drops the error
  (\<^verbatim>\<open>_ = c.Logout(...)\<close>): a run whose logout fails returns the same values and makes
  the same calls, with the same arguments, as the run whose logout succeeds, so nothing
  keeps a record of the failure.
\<close>

theorem C8_counterexample:
  "client_Logout w_logout_fails (Client 1) = Some (Error ''session is not authenticated'') \<and>
   client_Logout w_ok (Client 1) = None \<and>
   PostProcess w_logout_fails p_full a_esx = PostProcess w_ok p_full a_esx \<and>
   PostProcess w_logout_fails p_full a_esx =
     (Returned (Some a_esx) True True None,
      [ui_Message ''Waiting 10s for VMware vSphere to start'', time_Sleep 10000000000,
       NewClient None True,
       StepRun (stepChooseDatacenter ''dc1''), StepRun (stepCreateFolder ''templates''),
       StepRun (NewStepCreateSnapshot a_esx p_full), StepRun (NewStepMarkAsTemplate a_esx p_full),
       StepCleanup (NewStepMarkAsTemplate a_esx p_full), StepCleanup (NewStepCreateSnapshot a_esx p_full),
       StepCleanup (stepCreateFolder ''templates''), StepCleanup (stepChooseDatacenter ''dc1''),
       ClientLogout (Client 1)])"
  by (simp add: model_defs fixture_defs)

text \<open>
  Claim C8, amended. A failure of \<^verbatim>\<open>Logout\<close> is dropped, not recorded, and never
  overrides the outcome: for every run, the artifact, the booleans and the error that
  \<^verbatim>\<open>PostProcess\<close> returns, and every call it makes, are the same whatever \<^verbatim>\<open>c.Logout\<close>
  returns.
\<close>

theorem C8_logout_result_ignored:
  "PostProcess (w\<lparr>client_Logout := l\<rparr>) p a = PostProcess w p a"
  unfolding PostProcess_def builtins_Logout run_steps_Logout Logout_Logout NewClient_Logout
  by (rule refl)

text \<open>The same run with a failing logout.\<close>

theorem C8_logout_result_ignored_witness:
  "PostProcess (w_ok\<lparr>client_Logout := logout_fails\<rparr>) p_full a_esx =
     PostProcess w_ok p_full a_esx"
  using C8_logout_result_ignored [where w = w_ok and l = logout_fails and p = p_full and a = a_esx]
  by simp

text \<open>
  Claim C9. Whenever decoding succeeds and \<^verbatim>\<open>"https://<host>/sdk"\<close> parses, \<^verbatim>\<open>Configure\<close>
  leaves \<^verbatim>\<open>p.url\<close> set to the parsed URL with username and password as its user
  information, whatever the missing-field errors are; so a call that returns a
  missing-field error (any call with an empty required field) still leaves \<^verbatim>\<open>p.url\<close>
  populated.
\<close>

theorem C9_url_set_despite_errors:
  assumes dec: "config_Decode w (config p) raws = (None, c)"
    and parse: "url_Parse w (''https://'' @ Host c @ ''/sdk'') = Inr sdk"
  shows "url (snd (Configure w p raws)) =
           Some (sdk\<lparr>User := Some (UserPassword (Username c) (Password c))\<rparr>)
       \<and> (set (vc_order w) = {''host'', ''username'', ''password''} \<and>
          (Host c = '''' \<or> Username c = '''' \<or> Password c = '''')
            \<longrightarrow> fst (Configure w p raws) \<noteq> None)"
proof -
  have "url (snd (Configure w p raws)) =
      Some (sdk\<lparr>User := Some (UserPassword (Username c) (Password c))\<rparr>)"
    using dec parse by (simp add: Configure_def Let_def)
  moreover have "fst (Configure w p raws) \<noteq> None"
    if "set (vc_order w) = {''host'', ''username'', ''password''}"
      "Host c = '''' \<or> Username c = '''' \<or> Password c = ''''"
    using Configure_reports_missing [OF dec that] by auto
  ultimately show ?thesis by blast
qed

text \<open>
  With an empty username \<^verbatim>\<open>Configure\<close> returns the error and still replaces the unset URL.
\<close>

theorem C9_url_set_despite_errors_witness:
  "config_Decode w_ok (config p_no_user) () = (None, c_no_user) \<and>
   url_Parse w_ok (''https://'' @ Host c_no_user @ ''/sdk'') =
     Inr \<lparr>Scheme = ''https'', User = None, URL_Host = ''vcenter.example.com'', Path = ''/sdk''\<rparr> \<and>
   url p_no_user = None \<and>
   fst (Configure w_ok p_no_user ()) = Some (MultiError [Error ''username must be set'']) \<and>
   url (snd (Configure w_ok p_no_user ())) =
     Some \<lparr>Scheme = ''https'', User = Some (UserPassword '''' ''secret''),
           URL_Host = ''vcenter.example.com'', Path = ''/sdk''\<rparr>"
proof -
  have dec: "config_Decode w_ok (config p_no_user) () = (None, c_no_user)"
    by (simp add: fixture_defs)
  have parse: "url_Parse w_ok (''https://'' @ Host c_no_user @ ''/sdk'') =
     Inr \<lparr>Scheme = ''https'', User = None, URL_Host = ''vcenter.example.com'', Path = ''/sdk''\<rparr>"
    by (simp add: fixture_defs)
  have err: "fst (Configure w_ok p_no_user ()) = Some (MultiError [Error ''username must be set''])"
    by (simp add: Configure_def vc_def fixture_defs)
  have cfg: "Username c_no_user = ''''" "Password c_no_user = ''secret''" "url p_no_user = None"
    by (simp_all add: fixture_defs)
  show ?thesis
    using C9_url_set_despite_errors [OF dec parse] dec parse err
    by (simp add: cfg)
qed

text \<open>
  Claim C10. For every artifact whose skip-export metadata is absent or anything other
  than the string \<^verbatim>\<open>"false"\<close>, \<^verbatim>\<open>PostProcess\<close> does not report the export conflict,
  whatever the export format and the keep-registered flag are: an allow-listed artifact
  goes on to the settling delay and the connection, and any other artifact is reported
  as unsupported.
\<close>

theorem C10_skip_export_exact_match:
  assumes "State a ArtifactConfSkipExport \<noteq> GoString ''false''"
  shows "PostProcess w p a \<noteq> (Returned None False False (Some ConflictingExportConfig), [])
       \<and> (allow_listed w a \<longrightarrow> prefix (settle p) (snd (PostProcess w p a)))
       \<and> (\<not> allow_listed w a \<longrightarrow>
            fst (PostProcess w p a) =
              Returned None False False (Some (UnsupportedArtifact (BuilderId a))))"
proof (cases "allow_listed w a")
  case False
  have diff: "UnsupportedArtifact (BuilderId a) \<noteq> ConflictingExportConfig"
    by (simp add: UnsupportedArtifact_def ConflictingExportConfig_def)
  have "PostProcess w p a =
      (Returned None False False (Some (UnsupportedArtifact (BuilderId a))), [])"
    using False PostProcess_unsupported [of w a p] by (simp add: allow_listed_def)
  then show ?thesis using False diff by simp
next
  case True
  have v: "validated w a" using True assms by (simp add: validated_def export_conflict_def)
  have pre: "prefix (settle p) (snd (PostProcess w p a))"
  proof (cases "govmomi_NewClient w (url p) (Insecure (config p))")
    case (Inl m)
    then show ?thesis using v PostProcess_no_connection [of w a p m] by simp
  next
    case (Inr c)
    then show ?thesis using v PostProcess_connected [of w a p c] by simp
  qed
  have "snd (PostProcess w p a) \<noteq> []" using pre by (auto simp add: settle_def)
  then have "PostProcess w p a \<noteq> (Returned None False False (Some ConflictingExportConfig), [])"
    by auto
  then show ?thesis using True pre by simp
qed

text \<open>
  An artifact exporting as \<^verbatim>\<open>ovf\<close> without keep-registered passes when its skip-export
  flag is the empty string and when it is absent.
\<close>

theorem C10_skip_export_exact_match_witness:
  "State a_skip_empty ArtifactConfSkipExport \<noteq> GoString ''false'' \<and>
   State a_skip_empty ArtifactConfFormat = GoString ''ovf'' \<and>
   State a_skip_empty ArtifactConfKeepRegistered \<noteq> GoString ''true'' \<and>
   State a_no_skip ArtifactConfSkipExport = GoNil \<and>
   State a_no_skip ArtifactConfFormat = GoString ''ovf'' \<and>
   State a_no_skip ArtifactConfKeepRegistered \<noteq> GoString ''true'' \<and>
   fst (PostProcess w_ok p_full a_skip_empty) = Returned (Some a_skip_empty) True True None \<and>
   fst (PostProcess w_ok p_full a_no_skip) = Returned (Some a_no_skip) True True None"
proof -
  have h1: "State a_skip_empty ArtifactConfSkipExport \<noteq> GoString ''false''"
    by (simp add: model_defs fixture_defs)
  have h2: "State a_no_skip ArtifactConfSkipExport \<noteq> GoString ''false''"
    by (simp add: model_defs fixture_defs)
  have r1: "fst (PostProcess w_ok p_full a_skip_empty) = Returned (Some a_skip_empty) True True None"
    by (simp add: model_defs fixture_defs)
  have r2: "fst (PostProcess w_ok p_full a_no_skip) = Returned (Some a_no_skip) True True None"
    by (simp add: model_defs fixture_defs)
  have s: "State a_skip_empty ArtifactConfFormat = GoString ''ovf''"
    "State a_skip_empty ArtifactConfKeepRegistered \<noteq> GoString ''true''"
    "State a_no_skip ArtifactConfSkipExport = GoNil"
    "State a_no_skip ArtifactConfFormat = GoString ''ovf''"
    "State a_no_skip ArtifactConfKeepRegistered \<noteq> GoString ''true''"
    by (simp_all add: model_defs fixture_defs)
  show ?thesis
    using C10_skip_export_exact_match [OF h1, of w_ok p_full]
      C10_skip_export_exact_match [OF h2, of w_ok p_full] h1 r1 r2
    by (simp add: s)
qed

end
